theory Spec2Isabelle
  imports Main "HOL-Library.State_Monad"
begin

section \<open>JavaScript values and observables\<close>

text \<open>
  A GraphQL response is parsed JSON: null, booleans, numbers, strings, arrays and objects.
  Numbers are carried around and never computed with, so any carrier does; an object is
  the list of its own properties.
\<close>

datatype json =
    JNull
  | JBool bool
  | JNum int
  | JStr string
  | JArr "json list"
  | JObj "(string \<times> json) list"

text \<open>
  A thrown JavaScript error, by the name of its constructor and its message:
  \<open>Error(m)\<close> is raised by the code itself, \<open>TypeError\<close> by the runtime when a
  property of \<open>null\<close> or \<open>undefined\<close> is read (its message is the runtime's, given
  here without the quotes around the property), the others by the libraries.
\<close>

datatype js_error = JsError (name: string) (message: string)

abbreviation Error :: "string \<Rightarrow> js_error" where
  "Error m \<equiv> JsError ''Error'' m"

abbreviation TypeError :: "string \<Rightarrow> js_error" where
  "TypeError m \<equiv> JsError ''TypeError'' m"

text \<open>
  The property read \<open>v.k\<close> for the property names the code reads (\<open>address\<close>,
  \<open>totalSupply\<close>, \<open>balance\<close>; none of them is a built-in property of a boolean, a
  number, a string or an array). \<open>None\<close> is JavaScript's \<open>undefined\<close>; reading a
  property of \<open>null\<close> throws.
\<close>

fun own_property :: "json \<Rightarrow> string \<Rightarrow> json option" where
  "own_property (JObj kvs) k = map_of kvs k"
| "own_property v k = None"

definition get_prop :: "json \<Rightarrow> string \<Rightarrow> js_error + json option" where
  "get_prop v k =
     (if v = JNull then Inl (TypeError (''Cannot read property '' @ k @ '' of null''))
      else Inr (own_property v k))"

text \<open>\<open>String.prototype.toLowerCase\<close> on the ASCII letters an address is written in.\<close>

definition lower_char :: "char \<Rightarrow> char" where
  "lower_char c =
     (let n = (of_char c :: nat) in if 65 \<le> n \<and> n \<le> 90 then char_of (n + 32) else c)"

definition toLowerCase :: "string \<Rightarrow> string" where
  "toLowerCase s = map lower_char s"

text \<open>
  An observable is the sequence of notifications it delivers to a subscriber. The
  \<open>map\<close> operator of the reactive-stream library applies the projection to every value;
  when the projection throws, the subscriber gets the error and nothing after it.
\<close>

datatype 'a notification = Next 'a | Failed js_error

type_synonym 'a observable = "'a notification list"

fun rx_map :: "('a \<Rightarrow> js_error + 'b) \<Rightarrow> 'a observable \<Rightarrow> 'b observable" where
  "rx_map f [] = []"
| "rx_map f (Next x # ns) =
     (case f x of Inl e \<Rightarrow> [Failed e] | Inr y \<Rightarrow> Next y # rx_map f ns)"
| "rx_map f (Failed e # ns) = [Failed e]"

section \<open>The Reputation entity\<close>

type_synonym Address = string

text \<open>The two GraphQL documents the class builds, by the values spliced into them.\<close>

datatype query =
    ReputationContractQuery string
  | ReputationHoldersQuery string string

text \<open>
  \<open>r.data.reputationHolders\<close> of a response to the holders query, typed \<open>any[]\<close> by the
  code: an array whose elements are any JSON value.
\<close>

record query_data =
  reputationHolders :: "json list"

record ApolloQueryResult =
  data :: query_data

text \<open>
  The context (\<open>./arc\<close>, not among the sources) is the two streams the class reads:
  the responses of \<open>getObservable\<close>, and per query the entity item of each response,
  which is what \<open>_getObservableObject\<close> hands to its item map.
\<close>

record Arc =
  getObservable :: "query \<Rightarrow> ApolloQueryResult observable"
  entityItems :: "query \<Rightarrow> json observable"

text \<open>
  Modelled from the spec: \<open>Arc._getObservableObject\<close> (\<open>./arc\<close> is missing), the
  data-access layer "translating parameterized GraphQL queries into typed observables":
  the item of every response of the query, passed through the item map.
\<close>

definition getObservableObject ::
  "Arc \<Rightarrow> query \<Rightarrow> (json \<Rightarrow> js_error + 'a) \<Rightarrow> 'a observable" where
  "getObservableObject ctx q itemMap = rx_map itemMap (entityItems ctx q)"

record IReputationState =
  address :: "json option"
  totalSupply :: "json option"

record Reputation =
  address :: Address
  arc_context :: Arc
  state :: "IReputationState observable"

text \<open>The constructor's \<open>itemMap\<close>; \<open>addr\<close> is the constructor's parameter it closes over.\<close>

definition itemMap :: "Address \<Rightarrow> json \<Rightarrow> js_error + IReputationState" where
  "itemMap addr item =
     (if item = JNull then
        Inl (Error (''Could not find a reputation contract with address '' @ toLowerCase addr))
      else
        case get_prop item ''address'' of
          Inl e \<Rightarrow> Inl e
        | Inr a \<Rightarrow>
            (case get_prop item ''totalSupply'' of
               Inl e \<Rightarrow> Inl e
             | Inr t \<Rightarrow> Inr \<lparr>IReputationState.address = a, totalSupply = t\<rparr>))"

definition new_Reputation :: "Address \<Rightarrow> Arc \<Rightarrow> Reputation" where
  "new_Reputation addr ctx =
     \<lparr>Reputation.address = addr, arc_context = ctx,
      state = getObservableObject ctx (ReputationContractQuery (toLowerCase addr)) (itemMap addr)\<rparr>"

text \<open>
  The second projection of \<open>reputationOf\<close>: \<open>items.length > 0 && items[0]\<close> is \<open>false\<close>
  on an empty array, and \<open>Number\<close> is JavaScript's conversion, a parameter here.
\<close>

definition holder_balance :: "(json \<Rightarrow> 'n) \<Rightarrow> json list \<Rightarrow> js_error + ('n::zero)" where
  "holder_balance Number items =
     (let item = (if length items > 0 then items ! 0 else JBool False) in
      case get_prop item ''balance'' of
        Inl e \<Rightarrow> Inl e
      | Inr b \<Rightarrow> Inr (case b of Some v \<Rightarrow> Number v | None \<Rightarrow> 0))"

text \<open>
  The method, with the instance passed through: it reads \<open>this.address\<close> and
  \<open>this.context\<close>, assigns nothing, and returns the piped observable.
\<close>

definition reputationOf ::
  "(json \<Rightarrow> 'n) \<Rightarrow> Address \<Rightarrow> Reputation \<Rightarrow> ('n::zero) observable \<times> Reputation" where
  "reputationOf Number addr this =
     (rx_map (holder_balance Number)
        (rx_map (\<lambda>r. Inr (reputationHolders (data r)))
           (getObservable (arc_context this) (ReputationHoldersQuery addr (Reputation.address this)))),
      this)"

section \<open>The documentation generator (docs/scripts/gen.js)\<close>

subsection \<open>Strings and paths\<close>

type_synonym path = string

text \<open>\<open>s.split(c)\<close> for a one-character separator: never empty, the empty string splits to one empty string.\<close>

fun split_on :: "char \<Rightarrow> string \<Rightarrow> string list" where
  "split_on c [] = [[]]"
| "split_on c (x # xs) =
     (if x = c then [] # split_on c xs
      else case split_on c xs of
             w # ws \<Rightarrow> (x # w) # ws
           | [] \<Rightarrow> [[x]])"

fun join :: "string \<Rightarrow> string list \<Rightarrow> string" where
  "join sep [] = []"
| "join sep [w] = w"
| "join sep (w # v # ws) = w @ sep @ join sep (v # ws)"

text \<open>
  The first occurrence of a pattern in a string, as the text before it and the text
  after it.
\<close>

fun find_first :: "string \<Rightarrow> string \<Rightarrow> (string \<times> string) option" where
  "find_first pat [] = (if pat = [] then Some ([], []) else None)"
| "find_first pat (c # cs) =
     (if take (length pat) (c # cs) = pat then Some ([], drop (length pat) (c # cs))
      else map_option (\<lambda>(b, a). (c # b, a)) (find_first pat cs))"

text \<open>
  The replacement text of \<open>String.prototype.replace\<close> for a string pattern: \<open>$$\<close> is a
  dollar sign, \<open>$&\<close> the match, \<open>$`\<close> the text before it and \<open>$'\<close> the text after it
  (there are no groups, so \<open>$1\<close> stays as it is).
\<close>

fun substitution :: "string \<Rightarrow> string \<Rightarrow> string \<Rightarrow> string \<Rightarrow> string" where
  "substitution m b a [] = []"
| "substitution m b a [c] = [c]"
| "substitution m b a (c # d # r) =
     (if c = CHR ''$'' \<and> d = CHR ''$'' then CHR ''$'' # substitution m b a r
      else if c = CHR ''$'' \<and> d = CHR ''&'' then m @ substitution m b a r
      else if c = CHR ''$'' \<and> d = CHR 0x60 then b @ substitution m b a r
      else if c = CHR ''$'' \<and> d = CHR 0x27 then a @ substitution m b a r
      else c # substitution m b a (d # r))"

text \<open>\<open>s.replace(pat, rep)\<close> with a string pattern: only the first occurrence.\<close>

definition js_replace :: "string \<Rightarrow> string \<Rightarrow> string \<Rightarrow> string" where
  "js_replace pat rep s =
     (case find_first pat s of
        None \<Rightarrow> s
      | Some (b, a) \<Rightarrow> b @ substitution pat b a rep @ a)"

text \<open>\<open>path.basename\<close> and \<open>path.dirname\<close> of the POSIX \<open>path\<close> module.\<close>

definition strip_slashes :: "string \<Rightarrow> string" where
  "strip_slashes p = rev (dropWhile (\<lambda>c. c = CHR ''/'') (rev p))"

definition basename :: "path \<Rightarrow> string" where
  "basename p = last (split_on CHR ''/'' (strip_slashes p))"

definition dirname :: "path \<Rightarrow> path" where
  "dirname p =
     (let segs = split_on CHR ''/'' (strip_slashes p) in
      if length segs \<le> 1 then (if p \<noteq> [] \<and> strip_slashes p = [] then ''/'' else ''.'')
      else let d = strip_slashes (join ''/'' (butlast segs)) in
           if d = [] then ''/'' else d)"

text \<open>
  A path as the file system sees it from the working directory: the segments, without
  \<open>.\<close> and empty ones, \<open>..\<close> resolved.
\<close>

fun resolve_segs :: "string list \<Rightarrow> string list \<Rightarrow> string list" where
  "resolve_segs acc [] = rev acc"
| "resolve_segs acc (w # ws) =
     (if w = [] \<or> w = ''.'' then resolve_segs acc ws
      else if w = ''..'' then resolve_segs (tl acc) ws
      else resolve_segs (w # acc) ws)"

definition key :: "path \<Rightarrow> string list" where
  "key p = resolve_segs [] (split_on CHR ''/'' p)"

fun drop_common :: "string list \<Rightarrow> string list \<Rightarrow> string list \<times> string list" where
  "drop_common (x # xs) (y # ys) = (if x = y then drop_common xs ys else (x # xs, y # ys))"
| "drop_common xs ys = (xs, ys)"

text \<open>\<open>path.relative(from, to)\<close>, both taken from the working directory.\<close>

definition relative :: "path \<Rightarrow> path \<Rightarrow> path" where
  "relative from to =
     (case drop_common (key from) (key to) of
        (up, down) \<Rightarrow> join ''/'' (replicate (length up) ''..'' @ down))"

fun show_nat :: "nat \<Rightarrow> string" where
  "show_nat n =
     (if n < 10 then [char_of (48 + n)] else show_nat (n div 10) @ [char_of (48 + n mod 10)])"

subsection \<open>The file system\<close>

text \<open>
  Regular files with their contents and directories, both by resolved path; the working
  directory is the empty path and always exists.
\<close>

record filesystem =
  files :: "(string list \<times> string) list"
  dirs :: "string list list"

definition below :: "string list \<Rightarrow> string list \<Rightarrow> bool" where
  "below d k = (take (length d) k = d)"

definition is_file :: "filesystem \<Rightarrow> string list \<Rightarrow> bool" where
  "is_file fs k = (k \<in> fst ` set (files fs))"

definition is_dir :: "filesystem \<Rightarrow> string list \<Rightarrow> bool" where
  "is_dir fs k = (k = [] \<or> k \<in> set (dirs fs))"

text \<open>\<open>shell.rm('-rf', p)\<close>: the entry and everything below it; no error when it is missing.\<close>

definition rm_rf :: "path \<Rightarrow> filesystem \<Rightarrow> filesystem" where
  "rm_rf p fs =
     \<lparr>files = filter (\<lambda>(k, c). \<not> below (key p) k) (files fs),
      dirs = filter (\<lambda>k. \<not> below (key p) k) (dirs fs)\<rparr>"

definition existsSync :: "filesystem \<Rightarrow> path \<Rightarrow> bool" where
  "existsSync fs p = (is_file fs (key p) \<or> is_dir fs (key p))"

definition readFileSync :: "filesystem \<Rightarrow> path \<Rightarrow> js_error + string" where
  "readFileSync fs p =
     (case map_of (files fs) (key p) of
        Some c \<Rightarrow> Inr c
      | None \<Rightarrow>
          if is_dir fs (key p) then Inl (Error (''EISDIR: illegal operation on a directory, read''))
          else Inl (Error (''ENOENT: no such file or directory, open '' @ p)))"

text \<open>
  \<open>shell.mkdir('-p', p)\<close>: every missing directory on the way down; it stops at a
  regular file in the way, reporting on the console without throwing.
\<close>

fun mkdir_from :: "string list \<Rightarrow> string list \<Rightarrow> filesystem \<Rightarrow> filesystem" where
  "mkdir_from upper [] fs = fs"
| "mkdir_from upper (w # ws) fs =
     (let d = upper @ [w] in
      if is_file fs d then fs
      else mkdir_from d ws (if is_dir fs d then fs else fs\<lparr>dirs := dirs fs @ [d]\<rparr>))"

definition mkdir_p :: "path \<Rightarrow> filesystem \<Rightarrow> filesystem" where
  "mkdir_p p fs = mkdir_from [] (key p) fs"

text \<open>Setting a key of a JavaScript object: a known key keeps its place.\<close>

definition assign :: "'k \<Rightarrow> 'v \<Rightarrow> ('k \<times> 'v) list \<Rightarrow> ('k \<times> 'v) list" where
  "assign k v kvs =
     (if k \<in> fst ` set kvs then map (\<lambda>(k', v'). if k' = k then (k, v) else (k', v')) kvs
      else kvs @ [(k, v)])"

text \<open>\<open>fs.writeFileSync(p, c)\<close>: it throws when \<open>p\<close> is a directory or its parent is not one.\<close>

definition writeFileSync :: "path \<Rightarrow> string \<Rightarrow> filesystem \<Rightarrow> js_error + filesystem" where
  "writeFileSync p c fs =
     (let k = key p in
      if is_dir fs k then Inl (Error (''EISDIR: illegal operation on a directory, open '' @ p))
      else if is_file fs (butlast k) then Inl (Error (''ENOTDIR: not a directory, open '' @ p))
      else if \<not> is_dir fs (butlast k) then Inl (Error (''ENOENT: no such file or directory, open '' @ p))
      else Inr (fs\<lparr>files := assign k c (files fs)\<rparr>))"

text \<open>
  \<open>shell.ls('./contracts/*/*.sol')\<close>: the entries exactly two levels below
  \<open>contracts\<close>'s parent whose name ends in \<open>.sol\<close>; a \<open>*\<close> matches no \<open>/\<close> and no
  leading dot. The paths come back as the pattern is written, from \<open>./\<close>.
\<close>

definition ends_with :: "string \<Rightarrow> string \<Rightarrow> bool" where
  "ends_with suffix s = (length suffix \<le> length s \<and> drop (length s - length suffix) s = suffix)"

definition star_segment :: "string \<Rightarrow> bool" where
  "star_segment w = (w \<noteq> [] \<and> hd w \<noteq> CHR ''.'')"

definition matches_contracts_glob :: "string list \<Rightarrow> bool" where
  "matches_contracts_glob k =
     (case k of
        [c, d, f] \<Rightarrow> c = ''contracts'' \<and> star_segment d \<and> star_segment f \<and> ends_with ''.sol'' f
      | _ \<Rightarrow> False)"

definition ls_contracts :: "filesystem \<Rightarrow> path list" where
  "ls_contracts fs =
     map (\<lambda>k. ''./'' @ join ''/'' k) (filter matches_contracts_glob (map fst (files fs)))"

subsection \<open>compile\<close>

record contract_data =
  interface :: string
  metadata :: string
  gasEstimates :: json

record compiled =
  filePath :: path
  contractName :: "string option"
  data :: contract_data

datatype toc = Link string | Dir "(string \<times> toc) list"

text \<open>
  What the script calls and does not define: the compiler (given the sources and the
  import callback, it returns \<open>output.contracts\<close> keyed \<open>file:contract\<close>, or throws),
  \<open>JSON.parse\<close>, the two templates of \<open>./templates.js\<close>, and the stack trace the
  runtime attached to a thrown error.
\<close>

record env =
  solc_compile ::
    "(path \<times> string) list \<Rightarrow> (path \<Rightarrow> js_error + string) \<Rightarrow> js_error + (string \<times> contract_data) list"
  JSON_parse :: "string \<Rightarrow> js_error + json"
  contractTemplate ::
    "path \<Rightarrow> string option \<Rightarrow> json \<Rightarrow> json \<Rightarrow> json \<Rightarrow> string \<Rightarrow> js_error + string"
  tableOfContentsTemplate :: "toc \<Rightarrow> string \<Rightarrow> js_error + string"
  stack :: "js_error \<Rightarrow> string"

text \<open>The \<open>reduce\<close> that reads every file into the compiler's input.\<close>

fun read_sources ::
  "filesystem \<Rightarrow> path list \<Rightarrow> (path \<times> string) list \<Rightarrow> js_error + (path \<times> string) list" where
  "read_sources fs [] acc = Inr acc"
| "read_sources fs (f # rest) acc =
     (case readFileSync fs f of
        Inl e \<Rightarrow> Inl e
      | Inr c \<Rightarrow> read_sources fs rest (assign f c acc))"

text \<open>The import callback: the file under \<open>node_modules\<close> when there is one.\<close>

definition findImports :: "filesystem \<Rightarrow> path \<Rightarrow> js_error + string" where
  "findImports fs f =
     (let node_path = (if f \<noteq> [] \<and> hd f = CHR ''/'' then f else ''node_modules/'' @ f) in
      readFileSync fs (if existsSync fs node_path then node_path else f))"

definition split_key :: "string \<Rightarrow> contract_data \<Rightarrow> compiled" where
  "split_key contract d =
     (let split = split_on CHR '':'' contract in
      \<lparr>filePath = split ! 0,
       contractName = (if 1 < length split then Some (split ! 1) else None),
       data = d\<rparr>)"

definition compile :: "env \<Rightarrow> filesystem \<Rightarrow> path list \<Rightarrow> js_error + compiled list" where
  "compile env fs fileList =
     (case read_sources fs fileList [] of
        Inl e \<Rightarrow> Inl e
      | Inr input \<Rightarrow>
          (case solc_compile env input (findImports fs) of
             Inl e \<Rightarrow> Inl e
           | Inr contracts \<Rightarrow>
               Inr (filter (\<lambda>c. filePath c \<in> set fileList)
                      (map (\<lambda>(contract, d). split_key contract d) contracts))))"

subsection \<open>render\<close>

text \<open>A value spliced into a template literal: \<open>undefined\<close> prints as its name.\<close>

definition template_str :: "string option \<Rightarrow> string" where
  "template_str v = (case v of None \<Rightarrow> ''undefined'' | Some s \<Rightarrow> s)"

definition destFn :: "path \<Rightarrow> string option \<Rightarrow> path" where
  "destFn f n =
     (if f = ''toc'' then ''./docs/ref/README.md''
      else js_replace (basename f) (template_str n @ ''.md'')
             (js_replace ''./contracts'' ''./docs/ref'' f))"

definition headerFn :: "path \<Rightarrow> string option \<Rightarrow> path" where
  "headerFn f n =
     (if f = ''toc'' then ''./docs/headers/README.md''
      else js_replace (basename f) (template_str n @ ''.md'')
             (js_replace ''./contracts'' ''./docs/headers'' f))"

text \<open>
  One pass of the loop in \<open>hierarchy\<close>, from \<open>sub\<close> down the remaining keys. A key of
  an object is set when its value is missing or falsy (the empty string); a string in
  the way takes no property, and reading a property of the \<open>undefined\<close> that is left
  throws. Directory and contract names are taken not to be names of
  \<open>Object.prototype\<close>'s own properties.
\<close>

fun toc_insert :: "string list \<Rightarrow> string \<Rightarrow> toc \<Rightarrow> js_error + toc" where
  "toc_insert [] leaf sub = Inr sub"
| "toc_insert (k # ks) leaf (Link s) =
     (if ks = [] then Inr (Link s)
      else Inl (TypeError (''Cannot read property '' @ hd ks @ '' of undefined'')))"
| "toc_insert (k # ks) leaf (Dir kvs) =
     (let child = (case map_of kvs k of
                     None \<Rightarrow> (if ks = [] then Link leaf else Dir [])
                   | Some t \<Rightarrow> (if t = Link [] then (if ks = [] then Link leaf else Dir []) else t)) in
      case toc_insert ks leaf child of
        Inl e \<Rightarrow> Inl e
      | Inr t \<Rightarrow> Inr (Dir (assign k t kvs)))"

fun hierarchy ::
  "(path \<Rightarrow> string option \<Rightarrow> path) \<Rightarrow> path \<Rightarrow> compiled list \<Rightarrow> toc \<Rightarrow> js_error + toc" where
  "hierarchy dest tocDest [] obj = Inr obj"
| "hierarchy dest tocDest (c # cs) obj =
     (case toc_insert (split_on CHR ''/'' (dirname (filePath c)) @ [template_str (contractName c)])
             (relative (dirname tocDest) (dest (filePath c) (contractName c))) obj of
        Inl e \<Rightarrow> Inl e
      | Inr obj' \<Rightarrow> hierarchy dest tocDest cs obj')"

definition truthy :: "json \<Rightarrow> bool" where
  "truthy v = (case v of JNull \<Rightarrow> False | JBool b \<Rightarrow> b | JNum n \<Rightarrow> n \<noteq> 0 | JStr s \<Rightarrow> s \<noteq> [] | _ \<Rightarrow> True)"

text \<open>\<open>fs.existsSync(header) ? fs.readFileSync(header) : ''\<close>\<close>

definition read_header :: "filesystem \<Rightarrow> path \<Rightarrow> js_error + string" where
  "read_header fs header = (if existsSync fs header then readFileSync fs header else Inr [])"

text \<open>
  The body of the \<open>forEach\<close> over the compiled contracts. The result is the error
  thrown, if any, and the file system as the body left it.
\<close>

definition render_contract ::
  "env \<Rightarrow> (path \<Rightarrow> string option \<Rightarrow> path) \<Rightarrow> (path \<Rightarrow> string option \<Rightarrow> path) \<Rightarrow>
   compiled \<Rightarrow> filesystem \<Rightarrow> js_error option \<times> filesystem" where
  "render_contract env dest hdr c fs =
     (case JSON_parse env (interface (data c)) of
        Inl e \<Rightarrow> (Some e, fs)
      | Inr abi \<Rightarrow>
     (case (if metadata (data c) \<noteq> [] then
              (case JSON_parse env (metadata (data c)) of
                 Inl e \<Rightarrow> Inl e
               | Inr m \<Rightarrow> get_prop m ''output'')
            else Inr (Some (JObj []))) of
        Inl e \<Rightarrow> (Some e, fs)
      | Inr meta \<Rightarrow>
     (case (case meta of
              None \<Rightarrow> Inl (TypeError ''Cannot read property devdoc of undefined'')
            | Some m \<Rightarrow> get_prop m ''devdoc'') of
        Inl e \<Rightarrow> (Some e, fs)
      | Inr dd \<Rightarrow>
     (let devdoc = (case dd of None \<Rightarrow> JObj [] | Some v \<Rightarrow> if truthy v then v else JObj []);
          destination = dest (filePath c) (contractName c);
          header = hdr (filePath c) (contractName c) in
      case read_header fs header of
        Inl e \<Rightarrow> (Some e, fs)
      | Inr h \<Rightarrow>
     (case contractTemplate env (filePath c) (contractName c) abi devdoc (gasEstimates (data c)) h of
        Inl e \<Rightarrow> (Some e, fs)
      | Inr renderedContract \<Rightarrow>
     (let fs1 = mkdir_p (dirname destination) fs in
      case writeFileSync destination renderedContract fs1 of
        Inl e \<Rightarrow> (Some e, fs1)
      | Inr fs2 \<Rightarrow> (None, fs2)))))))"

fun render_contracts ::
  "env \<Rightarrow> (path \<Rightarrow> string option \<Rightarrow> path) \<Rightarrow> (path \<Rightarrow> string option \<Rightarrow> path) \<Rightarrow>
   compiled list \<Rightarrow> filesystem \<Rightarrow> js_error option \<times> filesystem" where
  "render_contracts env dest hdr [] fs = (None, fs)"
| "render_contracts env dest hdr (c # cs) fs =
     (case render_contract env dest hdr c fs of
        (Some e, fs') \<Rightarrow> (Some e, fs')
      | (None, fs') \<Rightarrow> render_contracts env dest hdr cs fs')"

text \<open>
  The first half of \<open>render\<close>: the table of contents, from the hierarchy to the write.
\<close>

definition render_toc ::
  "env \<Rightarrow> compiled list \<Rightarrow> (path \<Rightarrow> string option \<Rightarrow> path) \<Rightarrow> (path \<Rightarrow> string option \<Rightarrow> path) \<Rightarrow>
   filesystem \<Rightarrow> js_error option \<times> filesystem" where
  "render_toc env compileOutput dest hdr fs =
     (let tocDest = dest ''toc'' None;
          tocHeader = hdr ''toc'' None in
      case hierarchy dest tocDest compileOutput (Dir []) of
        Inl e \<Rightarrow> (Some e, fs)
      | Inr h \<Rightarrow>
     (case read_header fs tocHeader of
        Inl e \<Rightarrow> (Some e, fs)
      | Inr th \<Rightarrow>
     (case tableOfContentsTemplate env h th of
        Inl e \<Rightarrow> (Some e, fs)
      | Inr tocText \<Rightarrow>
     (let fs1 = mkdir_p (dirname tocDest) fs in
      case writeFileSync tocDest tocText fs1 of
        Inl e \<Rightarrow> (Some e, fs1)
      | Inr fs2 \<Rightarrow> (None, fs2)))))"

definition render ::
  "env \<Rightarrow> compiled list \<Rightarrow> (path \<Rightarrow> string option \<Rightarrow> path) \<Rightarrow> (path \<Rightarrow> string option \<Rightarrow> path) \<Rightarrow>
   filesystem \<Rightarrow> js_error option \<times> filesystem" where
  "render env compileOutput dest hdr fs =
     (case render_toc env compileOutput dest hdr fs of
        (Some e, fs') \<Rightarrow> (Some e, fs')
      | (None, fs') \<Rightarrow> render_contracts env dest hdr compileOutput fs')"

subsection \<open>The script\<close>

text \<open>
  The \<open>try\<close> block up to \<open>shell.exit(0)\<close>: the error thrown, if any, the lines echoed so
  far and the file system at that point.
\<close>

definition try_block :: "env \<Rightarrow> filesystem \<Rightarrow> js_error option \<times> string list \<times> filesystem" where
  "try_block env fs0 =
     (let fs1 = rm_rf ''./docs/ref'' fs0;
          fileList = ls_contracts fs1;
          out1 = [''Compiling '' @ show_nat (length fileList) @ '' files...''] in
      case compile env fs1 fileList of
        Inl e \<Rightarrow> (Some e, out1, fs1)
      | Inr output \<Rightarrow>
          (let out2 = out1 @ [''Rendering '' @ show_nat (length output) @ '' contracts...''] in
           case render env output destFn headerFn fs1 of
             (thrown, fs2) \<Rightarrow> (thrown, out2, fs2)))"

text \<open>
  A run of the script: the status it exits with, the lines it echoed and the file system
  it leaves behind. The \<open>catch\<close> block echoes two lines and exits with 1.
\<close>

record outcome =
  exit_status :: nat
  console :: "string list"
  final_fs :: filesystem

definition main :: "env \<Rightarrow> filesystem \<Rightarrow> outcome" where
  "main env fs0 =
     (case try_block env fs0 of
        (None, out, fs) \<Rightarrow> \<lparr>exit_status = 0, console = out, final_fs = fs\<rparr>
      | (Some e, out, fs) \<Rightarrow>
          \<lparr>exit_status = 1, console = out @ [''An error occurred'', stack env e], final_fs = fs\<rparr>)"

section \<open>React components\<close>

text \<open>
  What a component renders: text, a number (printed in decimal), an element with its
  properties and children, or one of the values React renders as nothing
  (\<open>undefined\<close>, \<open>null\<close>, \<open>false\<close>).
\<close>

record IProfileState =
  socialURLs :: "(string \<times> string) list"

datatype action =
    HandleRelease int
  | HandleExtend int int int
  | SetLockDuration

datatype prop_value =
    PStr string
  | PBool bool
  | PProfile IProfileState
  | PAction action

datatype node =
    Text string
  | Num int
  | Empty
  | Element string "(string \<times> prop_value) list" "node list"

text \<open>Every piece of text a rendered tree shows, in order.\<close>

fun text_content :: "node \<Rightarrow> string list" where
  "text_content (Text s) = [s]"
| "text_content (Num n) = [if n < 0 then ''-'' @ show_nat (nat (- n)) else show_nat (nat n)]"
| "text_content Empty = []"
| "text_content (Element tag props children) = concat (map text_content children)"

text \<open>What \<open>Subscribe\<close> hands to its children: the last value and the error, if any.\<close>

record 'a IObservableState =
  data :: "'a option"
  error :: "js_error option"

text \<open>
  Modelled from the spec: the \<open>Subscribe\<close> component (\<open>components/Shared/Subscribe\<close>
  is missing), the "UI subscription boundary": it subscribes to the observable, keeps
  the last value and catches an error into the state, and renders its children function
  on that state.
\<close>

definition observed :: "'a observable \<Rightarrow> 'a IObservableState" where
  "observed ns =
     fold (\<lambda>n st. case n of Next x \<Rightarrow> st\<lparr>data := Some x\<rparr> | Failed e \<Rightarrow> st\<lparr>error := Some e\<rparr>)
       ns \<lparr>data = None, error = None\<rparr>"

text \<open>
  Modelled from the spec: rendering \<open><Subscribe observable={o}>{children}</Subscribe>\<close>
  is rendering \<open>children\<close> on the observed state.
\<close>

definition Subscribe :: "'a observable \<Rightarrow> ('a IObservableState \<Rightarrow> 'r) \<Rightarrow> 'r" where
  "Subscribe observable children = children (observed observable)"

subsection \<open>DaoMembersContainer\<close>

text \<open>The class names of \<open>ViewDao.scss\<close> the component uses.\<close>

record css_ViewDao =
  member :: string
  clearfix :: string
  memberAddress :: string
  socialButton :: string
  membersContainer :: string
  loading :: string

record IDAOState =
  address :: Address

record IMemberState =
  address :: Address
  reputation :: int

record Member =
  state :: "IMemberState observable"

record IProps =
  dao :: "IDAOState option"
  members :: "Member list"
  profiles :: "Address \<Rightarrow> IProfileState option"

definition OAuthLogin :: "css_ViewDao \<Rightarrow> string \<Rightarrow> Address \<Rightarrow> IProfileState \<Rightarrow> node" where
  "OAuthLogin css provider account profile =
     Element ''OAuthLogin''
       [(''editing'', PBool False), (''provider'', PStr provider), (''accountAddress'', PStr account),
        (''profile'', PProfile profile), (''className'', PStr (socialButton css))] []"

text \<open>
  The function given to the member's \<open>Subscribe\<close> as its children (lines 38 to 78).
  \<open>dao.address\<close> is read only when the member has a profile, and throws when the
  \<open>dao\<close> property was not passed.
\<close>

definition member_children ::
  "css_ViewDao \<Rightarrow> IDAOState option \<Rightarrow> (Address \<Rightarrow> IProfileState option) \<Rightarrow>
   IMemberState IObservableState \<Rightarrow> js_error + node" where
  "member_children css dao_prop profs st =
     (case error st of
        Some e \<Rightarrow> Inr (Element ''div'' [] [Text (message e)])
      | None \<Rightarrow>
     (case data st of
        None \<Rightarrow> Inr (Element ''div'' [] [Text ''...loading..''])
      | Some memberState \<Rightarrow>
     (case (case profs (IMemberState.address memberState) of
              None \<Rightarrow> Inr (Text [])
            | Some profile \<Rightarrow>
                (case dao_prop of
                   None \<Rightarrow> Inl (TypeError ''Cannot read property address of undefined'')
                 | Some d \<Rightarrow>
                     Inr (Element ''div'' []
                       [Element ''AccountProfileName''
                          [(''accountProfile'', PProfile profile),
                           (''daoAvatarAddress'', PStr (IDAOState.address d))] [],
                        (if length (socialURLs profile) = 0 then Text []
                         else Element ''span'' []
                                [OAuthLogin css ''facebook'' (IMemberState.address memberState) profile,
                                 OAuthLogin css ''twitter'' (IMemberState.address memberState) profile,
                                 OAuthLogin css ''github'' (IMemberState.address memberState) profile]),
                        Element ''br'' [] []]))) of
        Inl e \<Rightarrow> Inl e
      | Inr profileBlock \<Rightarrow>
          Inr (Element ''div''
            [(''className'', PStr (member css @ '' '' @ clearfix css)),
             (''key'', PStr (''member_'' @ IMemberState.address memberState))]
            [Element ''AccountImage''
               [(''accountAddress'', PStr (IMemberState.address memberState)),
                (''className'', PStr ''membersPage'')] [],
             Element ''div'' [(''className'', PStr (memberAddress css))]
               [profileBlock,
                Element ''div'' [] [Text (IMemberState.address memberState)]],
             Element ''div'' []
               [Text ''Reputation: '', Element ''span'' [] [Num (reputation memberState)]]]))))"

text \<open>
  \<open>DaoMembersContainer.render\<close>. The callback of \<open>members.map\<close> has a block body
  whose one statement is the \<open>Subscribe\<close> element, with no \<open>return\<close>: the element is
  built and dropped, and the callback's value is \<open>undefined\<close>.
\<close>

definition DaoMembersContainer_render :: "css_ViewDao \<Rightarrow> IProps \<Rightarrow> node" where
  "DaoMembersContainer_render css props =
     (let membersHTML =
            map (\<lambda>m. let element = Subscribe (Member.state m)
                                      (member_children css (dao props) (profiles props))
                      in Empty)
              (members props)
      in Element ''div'' [(''className'', PStr (membersContainer css))] membersHTML)"

text \<open>
  The default export. \<open>members_of\<close> is \<open>new DAO(daoAddress, arc).members()\<close> of the client
  library, \<open>store_profiles\<close> the profiles that \<open>connect\<close> reads from the store; the
  connected container gets \<open>members\<close> and no \<open>dao\<close>.
\<close>

definition DaoMembersContainer ::
  "css_ViewDao \<Rightarrow> (Address \<Rightarrow> Member list observable) \<Rightarrow> (Address \<Rightarrow> IProfileState option) \<Rightarrow>
   string option \<Rightarrow> js_error + node" where
  "DaoMembersContainer css members_of store_profiles daoAvatarAddress =
     (case daoAvatarAddress of
        Some daoAddress \<Rightarrow>
          if daoAddress \<noteq> [] then
            Inr (Subscribe (members_of daoAddress)
                   (\<lambda>st. case error st of
                            Some e \<Rightarrow> Element ''div'' [] [Text (message e)]
                          | None \<Rightarrow>
                              (case data st of
                                 Some ms \<Rightarrow>
                                   DaoMembersContainer_render css
                                     \<lparr>dao = None, members = ms, profiles = store_profiles\<rparr>
                               | None \<Rightarrow>
                                   Element ''div'' [(''className'', PStr (loading css))]
                                     [Element ''img''
                                        [(''src'', PStr ''/assets/images/Icon/Loading-black.svg'')] []])))
          else Inl (Error ''No dao address specified '')
      | None \<Rightarrow> Inl (Error ''No dao address specified ''))"

subsection \<open>LockRow\<close>

text \<open>
  The lock and the scheme's parameters (\<open>./Staking\<close> is missing): the fields the row
  reads. The numeric fields are the values \<open>Number\<close> gives, taken to be integers; times
  are in seconds. \<open>ref\<close> is the object's identity, which \<open>useMemo\<close> compares.
\<close>

record ICL4RLock =
  ref :: nat
  lockingId :: int
  lockingTime :: int
  period :: int
  amount :: string
  released :: bool
  releasedAt :: int

record ICL4RParams =
  batchTime :: int
  startTime :: int
  tokenSymbol :: string

record LockRow_props =
  schemeParams :: ICL4RParams
  lockData :: ICL4RLock
  getLockingBatch :: "int \<Rightarrow> int \<Rightarrow> int \<Rightarrow> int"
  durations :: "node list"
  currentLockingBatch :: int
  isLockingEnded :: bool

text \<open>The class names of \<open>LockRow.scss\<close>, and the two formatters the row calls.\<close>

record LockRow_env =
  css_row :: string
  css_releasedLabel :: string
  css_actionsWrapper :: string
  css_actionButton :: string
  css_disabled :: string
  css_extendWrapper :: string
  tokens_text :: "string \<Rightarrow> string"
  format_time :: "int \<Rightarrow> string"

text \<open>
  The row's hooks, in the order of the calls: three \<open>useState\<close> cells and two
  \<open>useMemo\<close> cells. A memo cell holds the dependency it was computed for and the value.
\<close>

record hooks =
  isReleasing :: bool
  isExtending :: bool
  lockDuration :: int
  releasable_cell :: "(nat \<times> int) option"
  release_cell :: "(nat \<times> bool) option"

definition first_render :: hooks where
  "first_render =
     \<lparr>isReleasing = False, isExtending = False, lockDuration = 1,
      releasable_cell = None, release_cell = None\<rparr>"

text \<open>
  \<open>React.useMemo(() => v, [dep])\<close>: the value is computed on the first render and when the
  dependency is another object than at the render before; otherwise the cell's value
  is returned as it is.
\<close>

definition useMemo :: "'v \<Rightarrow> nat \<Rightarrow> (nat \<times> 'v) option \<Rightarrow> 'v \<times> (nat \<times> 'v) option" where
  "useMemo v dep cell =
     (case cell of
        None \<Rightarrow> (v, Some (dep, v))
      | Some (d, old) \<Rightarrow> if d = dep then (old, cell) else (v, Some (dep, v)))"

text \<open>\<open>classNames({[a]: True, [b]: cond})\<close>\<close>

definition classNames2 :: "string \<Rightarrow> string \<Rightarrow> bool \<Rightarrow> string" where
  "classNames2 a b cond = (if cond then a @ '' '' @ b else a)"

text \<open>
  The component function at the time \<open>now\<close> (\<open>moment()\<close>, in milliseconds), with the hook
  cells before and after the render. A moment compares by its millisecond value.
\<close>

definition LockRow :: "LockRow_env \<Rightarrow> int \<Rightarrow> LockRow_props \<Rightarrow> hooks \<Rightarrow> node \<times> hooks" where
  "LockRow env now props h =
     (let ld = lockData props;
          sp = schemeParams props;
          (releasable, cell1) =
            useMemo (lockingTime ld * 1000 + (period ld * batchTime sp) * 1000) (ref ld)
              (releasable_cell h);
          (release, cell2) =
            useMemo (now \<ge> releasable \<and> \<not> released ld) (ref ld) (release_cell h);
          lockingBatch = getLockingBatch props (lockingTime ld) (startTime sp) (batchTime sp);
          busy = (isReleasing h \<or> isExtending h);
          actionButtonClass = classNames2 (css_actionButton env) (css_disabled env) busy
      in (Element ''tr'' [(''className'', PStr (css_row env))]
            [Element ''td'' [] [Num lockingBatch],
             Element ''td'' [] [Text (tokens_text env (amount ld) @ '' '' @ tokenSymbol sp)],
             Element ''td'' [] [Num (period ld), Text '' Periods''],
             Element ''td'' []
               [if \<not> released ld then Element ''span'' [] [Text (format_time env releasable)]
                else Element ''div'' [(''className'', PStr (css_releasedLabel env))]
                       [Element ''span'' [] [Text ''Released''],
                        Element ''span'' [] [Text (format_time env (releasedAt ld * 1000))]]],
             Element ''td'' []
               [Element ''div'' [(''className'', PStr (css_actionsWrapper env))]
                  [if \<not> released ld \<and> release then
                     Element ''button''
                       [(''onClick'', PAction (HandleRelease (lockingId ld))),
                        (''className'', PStr actionButtonClass), (''disabled'', PBool busy)]
                       [Text ''Release'']
                   else Empty,
                   if \<not> isLockingEnded props \<and> now \<le> releasable then
                     Element ''div'' [(''className'', PStr (css_extendWrapper env))]
                       [Element ''button''
                          [(''onClick'', PAction (HandleExtend (lockDuration h)
                                                  (currentLockingBatch props) (lockingId ld))),
                           (''className'', PStr actionButtonClass), (''disabled'', PBool busy)]
                          [Text ''Extend Lock''],
                        Element ''select''
                          [(''onChange'', PAction SetLockDuration), (''disabled'', PBool busy)]
                          (durations props)]
                   else Empty]]],
          h\<lparr>releasable_cell := cell1, release_cell := cell2\<rparr>))"

text \<open>Whether a rendered tree has a button with the given label.\<close>

fun has_button :: "string \<Rightarrow> node \<Rightarrow> bool" where
  "has_button label (Element tag props children) =
     ((tag = ''button'' \<and> children = [Text label]) \<or> (\<exists>c \<in> set children. has_button label c))"
| "has_button label n = False"

section \<open>The Reputation entity with its effects\<close>

text \<open>
  What an operation of the class could change: the fields of the instance, and the
  browser's local storage, the one place a front end keeps state of its own.
\<close>

record world =
  entity :: Reputation
  storage :: "(string \<times> string) list"

text \<open>
  The statements a method is made of, as steps on the world: reading a field of
  \<open>this\<close>, assigning one, and writing an item of the storage.
\<close>

definition read_address :: "(world, Address) state" where
  "read_address = do { w \<leftarrow> State_Monad.get; State_Monad.return (Reputation.address (entity w)) }"

definition read_context :: "(world, Arc) state" where
  "read_context = do { w \<leftarrow> State_Monad.get; State_Monad.return (arc_context (entity w)) }"

definition assign_address :: "Address \<Rightarrow> (world, unit) state" where
  "assign_address v =
     do { w \<leftarrow> State_Monad.get; State_Monad.set (w\<lparr>entity := (entity w)\<lparr>Reputation.address := v\<rparr>\<rparr>) }"

definition assign_context :: "Arc \<Rightarrow> (world, unit) state" where
  "assign_context v =
     do { w \<leftarrow> State_Monad.get; State_Monad.set (w\<lparr>entity := (entity w)\<lparr>arc_context := v\<rparr>\<rparr>) }"

definition assign_state :: "IReputationState observable \<Rightarrow> (world, unit) state" where
  "assign_state v =
     do { w \<leftarrow> State_Monad.get; State_Monad.set (w\<lparr>entity := (entity w)\<lparr>Reputation.state := v\<rparr>\<rparr>) }"

definition storage_setItem :: "string \<Rightarrow> string \<Rightarrow> (world, unit) state" where
  "storage_setItem k v =
     do { w \<leftarrow> State_Monad.get; State_Monad.set (w\<lparr>storage := assign k v (storage w)\<rparr>) }"

text \<open>
  An observable is cold: its pipeline runs when it is subscribed to. A subscription is
  the step that runs it, giving the notifications the subscriber receives. The stream
  of the context is handed over as it is; \<open>pipe(map(f))\<close> runs the projection \<open>f\<close>, itself
  a step on the world, on every value until one throws.
\<close>

type_synonym 'a subscription = "(world, 'a observable) state"

definition from_context :: "'a observable \<Rightarrow> 'a subscription" where
  "from_context ns = State_Monad.return ns"

fun run_map :: "('a \<Rightarrow> (world, js_error + 'b) state) \<Rightarrow> 'a observable \<Rightarrow> 'b subscription" where
  "run_map f [] = State_Monad.return []"
| "run_map f (Next x # ns) =
     do { r \<leftarrow> f x;
          case r of
            Inl e \<Rightarrow> State_Monad.return [Failed e]
          | Inr y \<Rightarrow> do { rest \<leftarrow> run_map f ns; State_Monad.return (Next y # rest) } }"
| "run_map f (Failed e # ns) = State_Monad.return [Failed e]"

definition pipe_map ::
  "('a \<Rightarrow> (world, js_error + 'b) state) \<Rightarrow> 'a subscription \<Rightarrow> 'b subscription" where
  "pipe_map f source = do { ns \<leftarrow> source; run_map f ns }"

text \<open>
  The constructor's \<open>itemMap\<close>, statement by statement: the test for \<open>null\<close> with its
  \<open>throw\<close>, the two property reads, the \<open>return\<close> of the object literal.
\<close>

definition itemMap_steps :: "Address \<Rightarrow> json \<Rightarrow> (world, js_error + IReputationState) state" where
  "itemMap_steps addr item =
     (if item = JNull then
        State_Monad.return
          (Inl (Error (''Could not find a reputation contract with address '' @ toLowerCase addr)))
      else
        do { a \<leftarrow> State_Monad.return (get_prop item ''address'');
             t \<leftarrow> State_Monad.return (get_prop item ''totalSupply'');
             State_Monad.return
               (case a of
                  Inl e \<Rightarrow> Inl e
                | Inr av \<Rightarrow>
                    (case t of
                       Inl e \<Rightarrow> Inl e
                     | Inr tv \<Rightarrow> Inr \<lparr>IReputationState.address = av, totalSupply = tv\<rparr>)) })"

text \<open>
  Subscribing to the \<open>state\<close> observable the constructor built for \<open>addr\<close> and \<open>ctx\<close>:
  the items of the contract query, through \<open>itemMap\<close>.
\<close>

definition subscribe_state :: "Address \<Rightarrow> Arc \<Rightarrow> IReputationState subscription" where
  "subscribe_state addr ctx =
     pipe_map (itemMap_steps addr)
       (from_context (entityItems ctx (ReputationContractQuery (toLowerCase addr))))"

text \<open>
  The constructor: the parameter properties \<open>public address\<close> and \<open>public context\<close>
  assign their fields, then \<open>this.state\<close> is assigned the observable, held in the field
  by the notifications it delivers.
\<close>

definition Reputation_constructor :: "Address \<Rightarrow> Arc \<Rightarrow> (world, unit) state" where
  "Reputation_constructor addr ctx =
     do { assign_address addr;
          assign_context ctx;
          assign_state (getObservableObject ctx (ReputationContractQuery (toLowerCase addr)) (itemMap addr)) }"

text \<open>The two projections of \<open>reputationOf\<close>, and the method itself.\<close>

definition holders_steps :: "ApolloQueryResult \<Rightarrow> (world, js_error + json list) state" where
  "holders_steps r = State_Monad.return (Inr (reputationHolders (ApolloQueryResult.data r)))"

definition balance_steps :: "(json \<Rightarrow> 'n) \<Rightarrow> json list \<Rightarrow> (world, js_error + ('n::zero)) state" where
  "balance_steps Number items =
     do { item \<leftarrow> State_Monad.return (if length items > 0 then items ! 0 else JBool False);
          b \<leftarrow> State_Monad.return (get_prop item ''balance'');
          State_Monad.return
            (case b of
               Inl e \<Rightarrow> Inl e
             | Inr bv \<Rightarrow> Inr (case bv of Some v \<Rightarrow> Number v | None \<Rightarrow> 0)) }"

definition reputationOf_steps ::
  "(json \<Rightarrow> 'n) \<Rightarrow> Address \<Rightarrow> (world, ('n::zero) subscription) state" where
  "reputationOf_steps Number addr =
     do { contract \<leftarrow> read_address;
          ctx \<leftarrow> read_context;
          State_Monad.return
            (pipe_map (balance_steps Number)
               (pipe_map holders_steps
                  (from_context (getObservable ctx (ReputationHoldersQuery addr contract))))) }"

section \<open>Example inputs\<close>

text \<open>
  A context whose contract query answers with one contract and then with no contract, and
  whose holder queries answer with an empty list, a holder without a balance, a holder
  with one, and (for another account) a list whose first element is \<open>null\<close>.
\<close>

definition example_arc :: Arc where
  "example_arc =
     \<lparr>getObservable = (\<lambda>q.
          if q = ReputationHoldersQuery ''0xM'' ''0xAB'' then
            [Next \<lparr>ApolloQueryResult.data = \<lparr>reputationHolders = []\<rparr>\<rparr>,
             Next \<lparr>ApolloQueryResult.data = \<lparr>reputationHolders = [JObj [(''id'', JStr ''h1'')]]\<rparr>\<rparr>,
             Next \<lparr>ApolloQueryResult.data =
                     \<lparr>reputationHolders = [JObj [(''balance'', JStr ''25'')], JNull]\<rparr>\<rparr>]
          else if q = ReputationHoldersQuery ''0xN'' ''0xAB'' then
            [Next \<lparr>ApolloQueryResult.data = \<lparr>reputationHolders = [JNull]\<rparr>\<rparr>]
          else []),
      entityItems = (\<lambda>q.
          if q = ReputationContractQuery ''0xab'' then
            [Next (JObj [(''id'', JStr ''0xab''), (''address'', JStr ''0xab''),
                         (''totalSupply'', JNum 100)]),
             Next JNull]
          else [])\<rparr>"

text \<open>A stand-in for \<open>Number\<close>: a number is itself, a string counts its characters.\<close>

definition example_Number :: "json \<Rightarrow> int" where
  "example_Number v = (case v of JNum n \<Rightarrow> n | JStr s \<Rightarrow> int (length s) | _ \<Rightarrow> 0)"

text \<open>
  A source tree with one contract file one directory below \<open>contracts\<close>, one directly in
  it and one two directories below, and a page left from an earlier run.
\<close>

definition example_fs :: filesystem where
  "example_fs =
     \<lparr>files = [([''contracts'', ''Top.sol''], ''contract Top {}''),
               ([''contracts'', ''a'', ''X.sol''], ''contract C {}''),
               ([''contracts'', ''a'', ''b'', ''Deep.sol''], ''contract Deep {}''),
               ([''docs'', ''ref'', ''old.md''], ''stale'')],
      dirs = [[''contracts''], [''contracts'', ''a''], [''contracts'', ''a'', ''b''],
              [''docs''], [''docs'', ''ref'']]\<rparr>"

definition example_data :: contract_data where
  "example_data = \<lparr>interface = ''[]'', metadata = [], gasEstimates = JNull\<rparr>"

text \<open>
  A compiler that returns one contract \<open>C\<close> per input file and a contract of an imported
  file, a parser that knows \<open>[]\<close> only, and templates that print a heading.
\<close>

definition example_env :: env where
  "example_env =
     \<lparr>solc_compile = (\<lambda>input imports.
          Inr (map (\<lambda>(f, c). (f @ '':C'', example_data)) input @ [(''dep/Lib.sol:Lib'', example_data)])),
      JSON_parse = (\<lambda>s. if s = ''[]'' then Inr (JArr []) else Inl (JsError ''SyntaxError'' s)),
      contractTemplate = (\<lambda>f n abi devdoc gas header. Inr (''# '' @ template_str n)),
      tableOfContentsTemplate = (\<lambda>t header. Inr ''# Contents''),
      stack = (\<lambda>e. name e @ '': '' @ message e)\<rparr>"

text \<open>The same with a compiler that throws, and with a contract template that throws.\<close>

definition failing_solc_env :: env where
  "failing_solc_env = example_env\<lparr>solc_compile := (\<lambda>input imports. Inl (Error ''solc''))\<rparr>"

definition failing_template_env :: env where
  "failing_template_env =
     example_env\<lparr>contractTemplate := (\<lambda>f n abi devdoc gas header. Inl (Error ''template''))\<rparr>"

text \<open>
  Class names, a member whose state arrives, a member whose state observable fails, and
  a store without profiles.
\<close>

definition example_css :: css_ViewDao where
  "example_css =
     \<lparr>member = ''member'', clearfix = ''clearfix'', memberAddress = ''memberAddress'',
      socialButton = ''socialButton'', membersContainer = ''membersContainer'',
      loading = ''loading''\<rparr>"

definition example_member :: Member where
  "example_member = \<lparr>Member.state = [Next \<lparr>IMemberState.address = ''0xm1'', reputation = 10\<rparr>]\<rparr>"

definition failing_member :: Member where
  "failing_member = \<lparr>Member.state = [Failed (Error ''Could not find member'')]\<rparr>"

definition no_profiles :: "Address \<Rightarrow> IProfileState option" where
  "no_profiles a = None"

text \<open>
  A lock taken at second 100 for 2 periods of 10 seconds (releasable at second 120), not
  released, in a scheme whose locking has not ended.
\<close>

definition example_LockRow_env :: LockRow_env where
  "example_LockRow_env =
     \<lparr>css_row = ''row'', css_releasedLabel = ''releasedLabel'',
      css_actionsWrapper = ''actionsWrapper'', css_actionButton = ''actionButton'',
      css_disabled = ''disabled'', css_extendWrapper = ''extendWrapper'',
      tokens_text = (\<lambda>a. a), format_time = (\<lambda>t. if t < 0 then ''-'' else show_nat (nat t))\<rparr>"

definition example_lock_props :: LockRow_props where
  "example_lock_props =
     \<lparr>schemeParams = \<lparr>batchTime = 10, startTime = 0, tokenSymbol = ''GEN''\<rparr>,
      lockData = \<lparr>ref = 1, lockingId = 7, lockingTime = 100, period = 2, amount = ''5'',
                  released = False, releasedAt = 0\<rparr>,
      getLockingBatch = (\<lambda>t s b. (t - s) div b),
      durations = [Element ''option'' [] [Num 1]],
      currentLockingBatch = 10,
      isLockingEnded = False\<rparr>"

section \<open>Reputation: the state observable and \<open>reputationOf\<close>\<close>

lemma rx_map_Inr: "rx_map (\<lambda>r. Inr (g r)) (map Next rs) = map (\<lambda>r. Next (g r)) rs"
  by (induction rs) auto

lemma lower_0xAB: "toLowerCase ''0xAB'' = ''0xab''"
  by code_simp

lemma holder_balance_ok:
  "items = [] \<or> hd items \<noteq> JNull \<Longrightarrow>
   holder_balance Number items =
     Inr (if items = [] then 0
          else case own_property (hd items) ''balance'' of None \<Rightarrow> 0 | Some b \<Rightarrow> Number b)"
  by (cases items) (auto simp: holder_balance_def get_prop_def)

text \<open>
  C4. The state observable of a Reputation is the stream of the contract query's items
  (the query carries the lowercased address) passed through the item map. The item map
  raises \<open>Could not find a reputation contract with address\<close> followed by the lowercased
  address on \<open>null\<close>, and on every other item returns exactly the item's \<open>address\<close> and
  \<open>totalSupply\<close>.
\<close>

theorem Reputation_state_translates:
  "Reputation.state (new_Reputation addr ctx) =
     rx_map (itemMap addr) (entityItems ctx (ReputationContractQuery (toLowerCase addr)))
   \<and> itemMap addr JNull =
       Inl (Error (''Could not find a reputation contract with address '' @ toLowerCase addr))
   \<and> (item \<noteq> JNull \<longrightarrow>
        itemMap addr item =
          Inr \<lparr>IReputationState.address = own_property item ''address'',
               totalSupply = own_property item ''totalSupply''\<rparr>)"
  by (simp add: new_Reputation_def getObservableObject_def itemMap_def get_prop_def)

theorem Reputation_state_translates_witness:
  "Reputation.state (new_Reputation ''0xAB'' example_arc) =
     [Next \<lparr>IReputationState.address = Some (JStr ''0xab''), totalSupply = Some (JNum 100)\<rparr>,
      Failed (Error ''Could not find a reputation contract with address 0xab'')]"
  using Reputation_state_translates [of "''0xAB''" example_arc
      "JObj [(''id'', JStr ''0xab''), (''address'', JStr ''0xab''), (''totalSupply'', JNum 100)]"]
  by (simp add: lower_0xAB example_arc_def)

lemma run_map_frame:
  assumes "\<And>x w. run_state (f x) w = (g x, w)"
  shows "run_state (run_map f ns) w = (rx_map g ns, w)"
proof (induction ns)
  case Nil
  then show ?case by simp
next
  case (Cons n ns)
  show ?case
  proof (cases n)
    case (Next x)
    with Cons assms show ?thesis
      by (cases "g x") simp_all
  next
    case (Failed e)
    then show ?thesis by simp
  qed
qed

lemma itemMap_steps_run: "run_state (itemMap_steps addr item) w = (itemMap addr item, w)"
  by (simp add: itemMap_steps_def itemMap_def)

lemma holders_steps_run:
  "run_state (holders_steps r) w = (Inr (reputationHolders (ApolloQueryResult.data r)), w)"
  by (simp add: holders_steps_def)

lemma balance_steps_run: "run_state (balance_steps Number items) w = (holder_balance Number items, w)"
  by (simp add: balance_steps_def holder_balance_def Let_def)

lemma subscribe_state_run:
  "run_state (subscribe_state addr ctx) w = (Reputation.state (new_Reputation addr ctx), w)"
  by (simp add: subscribe_state_def pipe_map_def from_context_def new_Reputation_def
      getObservableObject_def run_map_frame [of "itemMap_steps addr" "itemMap addr"] itemMap_steps_run)

lemma reputationOf_steps_run:
  "run_state (reputationOf_steps Number addr) w =
     (pipe_map (balance_steps Number)
        (pipe_map holders_steps
           (from_context (getObservable (arc_context (entity w))
              (ReputationHoldersQuery addr (Reputation.address (entity w)))))), w)"
  by (simp add: reputationOf_steps_def read_address_def read_context_def)

lemma reputationOf_subscription_run:
  "run_state (fst (run_state (reputationOf_steps Number addr) w)) w' =
     (fst (reputationOf Number addr (entity w)), w')"
  by (simp add: reputationOf_steps_run reputationOf_def pipe_map_def from_context_def
      run_map_frame [of holders_steps "\<lambda>r. Inr (reputationHolders (ApolloQueryResult.data r))"]
      run_map_frame [of "balance_steps Number" "holder_balance Number"]
      holders_steps_run balance_steps_run)

text \<open>
  The constructor does write: it leaves the instance with the three fields assigned, and
  the storage as it was.
\<close>

lemma Reputation_constructor_run:
  "run_state (Reputation_constructor addr ctx) w = ((), w\<lparr>entity := new_Reputation addr ctx\<rparr>)"
  by (simp add: Reputation_constructor_def assign_address_def assign_context_def assign_state_def
      new_Reputation_def)

text \<open>
  A projection that assigned a field would show in the world after the subscription: the
  steps do tell a pipeline that writes from one that does not.
\<close>

lemma writing_projection_changes_world:
  "Reputation.address (entity (snd (run_state
      (pipe_map (\<lambda>x. do { assign_address x; State_Monad.return (Inr x) }) (from_context [Next ''0xNEW'']))
      \<lparr>entity = new_Reputation ''0xAB'' example_arc, storage = []\<rparr>))) = ''0xNEW''"
  by (simp add: pipe_map_def from_context_def assign_address_def)

lemma assigning_method_changes_world:
  "Reputation.address (entity (snd (run_state
      (do { assign_address ''0xNEW''; read_address })
      \<lparr>entity = new_Reputation ''0xAB'' example_arc, storage = []\<rparr>))) = ''0xNEW''"
  by (simp add: assign_address_def read_address_def)

text \<open>
  C7. Calling \<open>reputationOf\<close> on any instance, in any world, leaves the world as it was:
  the instance's address, context and state fields and the local storage are unchanged.
  Subscribing to the observable it returns, and subscribing to the state observable,
  runs the projections and again leaves every world as it was; the subscriber receives
  the notifications of the observables as modelled above. The constructor, the one
  operation that assigns fields, writes nothing to the storage.
\<close>

theorem Reputation_operations_frame:
  "snd (run_state (reputationOf_steps Number addr) w) = w
   \<and> Reputation.address (entity (snd (run_state (reputationOf_steps Number addr) w)))
       = Reputation.address (entity w)
   \<and> arc_context (entity (snd (run_state (reputationOf_steps Number addr) w)))
       = arc_context (entity w)
   \<and> Reputation.state (entity (snd (run_state (reputationOf_steps Number addr) w)))
       = Reputation.state (entity w)
   \<and> storage (snd (run_state (reputationOf_steps Number addr) w)) = storage w
   \<and> run_state (fst (run_state (reputationOf_steps Number addr) w)) w'
       = (fst (reputationOf Number addr (entity w)), w')
   \<and> run_state (subscribe_state addr' ctx) w'
       = (Reputation.state (new_Reputation addr' ctx), w')
   \<and> storage (snd (run_state (Reputation_constructor addr' ctx) w')) = storage w'"
proof -
  have call: "snd (run_state (reputationOf_steps Number addr) w) = w"
    by (simp add: reputationOf_steps_run)
  have sub: "run_state (fst (run_state (reputationOf_steps Number addr) w)) w'
             = (fst (reputationOf Number addr (entity w)), w')"
    by (rule reputationOf_subscription_run)
  have st: "run_state (subscribe_state addr' ctx) w'
            = (Reputation.state (new_Reputation addr' ctx), w')"
    by (rule subscribe_state_run)
  have con: "storage (snd (run_state (Reputation_constructor addr' ctx) w')) = storage w'"
    by (simp add: Reputation_constructor_run)
  from call sub st con show ?thesis by simp
qed

text \<open>
  C8, as stated, fails when the first element of the holder list is \<open>null\<close>: reading its
  \<open>balance\<close> throws, and the subscriber gets a TypeError instead of a number.
\<close>

theorem reputationOf_null_holder_throws:
  "fst (reputationOf example_Number ''0xN'' (new_Reputation ''0xAB'' example_arc))
     = [Failed (TypeError ''Cannot read property balance of null'')]"
  by (simp add: reputationOf_def new_Reputation_def example_arc_def holder_balance_def get_prop_def)

text \<open>
  C8, amended. For responses whose holder list is empty or starts with an element other
  than \<open>null\<close>, \<open>reputationOf\<close> emits, for each response, 0 when the list is empty or its
  first element has no \<open>balance\<close>, and \<open>Number\<close> of that balance otherwise; in particular
  an empty list never throws.
\<close>

theorem reputationOf_emits:
  assumes "getObservable (arc_context this) (ReputationHoldersQuery a (Reputation.address this))
             = map Next rs"
    and "\<forall>r \<in> set rs. reputationHolders (ApolloQueryResult.data r) = []
                      \<or> hd (reputationHolders (ApolloQueryResult.data r)) \<noteq> JNull"
  shows "fst (reputationOf Number a this) =
           map (\<lambda>r. Next (let items = reputationHolders (ApolloQueryResult.data r) in
                           if items = [] then 0
                           else case own_property (hd items) ''balance'' of
                                  None \<Rightarrow> 0
                                | Some b \<Rightarrow> Number b)) rs"
proof -
  have "rx_map (holder_balance Number)
          (map (\<lambda>r. Next (reputationHolders (ApolloQueryResult.data r))) rs)
        = map (\<lambda>r. Next (let items = reputationHolders (ApolloQueryResult.data r) in
                           if items = [] then 0
                           else case own_property (hd items) ''balance'' of
                                  None \<Rightarrow> 0
                                | Some b \<Rightarrow> Number b)) rs"
    using assms(2)
  proof (induction rs)
    case Nil
    then show ?case by simp
  next
    case (Cons r rs)
    have "reputationHolders (ApolloQueryResult.data r) = []
          \<or> hd (reputationHolders (ApolloQueryResult.data r)) \<noteq> JNull"
      using Cons.prems by simp
    from holder_balance_ok [OF this, of Number] Cons show ?case
      by (simp add: Let_def)
  qed
  then show ?thesis
    by (simp add: reputationOf_def assms(1) rx_map_Inr)
qed

theorem reputationOf_emits_witness:
  "fst (reputationOf example_Number ''0xM'' (new_Reputation ''0xAB'' example_arc))
     = [Next 0, Next 0, Next 2]"
  using reputationOf_emits [of "new_Reputation ''0xAB'' example_arc" "''0xM''"
      "[\<lparr>ApolloQueryResult.data = \<lparr>reputationHolders = []\<rparr>\<rparr>,
        \<lparr>ApolloQueryResult.data = \<lparr>reputationHolders = [JObj [(''id'', JStr ''h1'')]]\<rparr>\<rparr>,
        \<lparr>ApolloQueryResult.data =
           \<lparr>reputationHolders = [JObj [(''balance'', JStr ''25'')], JNull]\<rparr>\<rparr>]"
      example_Number]
  by (simp add: new_Reputation_def example_arc_def example_Number_def)

section \<open>The documentation generator\<close>

declare show_nat.simps [simp del]

lemma key_docs_ref: "key ''./docs/ref'' = [''docs'', ''ref'']"
  by code_simp

lemma rm_rf_removes:
  "below (key p) k \<Longrightarrow> \<not> is_file (rm_rf p fs) k \<and> k \<notin> set (dirs (rm_rf p fs))"
  by (auto simp: rm_rf_def is_file_def)

lemma mkdir_from_files: "files (mkdir_from upper ws fs) = files fs"
  by (induction ws arbitrary: upper fs) (auto simp: Let_def)

lemma mkdir_p_files: "files (mkdir_p p fs) = files fs"
  by (simp add: mkdir_p_def mkdir_from_files)

lemma render_contract_failure_keeps_files:
  "render_contract env dest hdr c fs = (Some e, fs') \<Longrightarrow> files fs' = files fs"
  by (auto simp: render_contract_def Let_def mkdir_p_files split: sum.splits if_splits option.splits)

lemma render_contracts_stops:
  "render_contracts env dest hdr cs1 fs = (None, fsA) \<Longrightarrow>
   render_contract env dest hdr c fsA = (Some e, fsB) \<Longrightarrow>
   render_contracts env dest hdr (cs1 @ c # cs2) fs = (Some e, fsB)"
proof (induction cs1 arbitrary: fs)
  case Nil
  then show ?case by simp
next
  case (Cons x xs)
  from Cons.prems(1) obtain fsx where
    x: "render_contract env dest hdr x fs = (None, fsx)" and
    xs: "render_contracts env dest hdr xs fsx = (None, fsA)"
    by (auto split: prod.splits option.splits)
  from Cons.IH [OF xs Cons.prems(2)] x show ?case by simp
qed

text \<open>
  C1. The script exits with 0 when \<open>compile\<close> and \<open>render\<close> both return, and with 1 when
  either throws, after echoing \<open>An error occurred\<close> and the stack of the error thrown;
  there is no other exit status.
\<close>

theorem main_exit_status:
  "(let fs1 = rm_rf ''./docs/ref'' fs0; fileList = ls_contracts fs1 in
     (\<forall>output fs2.
        compile env fs1 fileList = Inr output \<and>
        render env output destFn headerFn fs1 = (None, fs2) \<longrightarrow>
        exit_status (main env fs0) = 0 \<and>
        console (main env fs0) =
          [''Compiling '' @ show_nat (length fileList) @ '' files...'',
           ''Rendering '' @ show_nat (length output) @ '' contracts...''])
   \<and> (\<forall>e. compile env fs1 fileList = Inl e \<longrightarrow>
        exit_status (main env fs0) = 1 \<and>
        console (main env fs0) =
          [''Compiling '' @ show_nat (length fileList) @ '' files...'',
           ''An error occurred'', stack env e])
   \<and> (\<forall>output e fs2.
        compile env fs1 fileList = Inr output \<and>
        render env output destFn headerFn fs1 = (Some e, fs2) \<longrightarrow>
        exit_status (main env fs0) = 1 \<and>
        console (main env fs0) =
          [''Compiling '' @ show_nat (length fileList) @ '' files...'',
           ''Rendering '' @ show_nat (length output) @ '' contracts...'',
           ''An error occurred'', stack env e])
   \<and> (exit_status (main env fs0) = 0 \<or> exit_status (main env fs0) = 1))"
proof -
  let ?fs1 = "rm_rf ''./docs/ref'' fs0"
  let ?fl = "ls_contracts ?fs1"
  have ok: "compile env ?fs1 ?fl = Inr out \<Longrightarrow>
            render env out destFn headerFn ?fs1 = (None, fs2) \<Longrightarrow>
            exit_status (main env fs0) = 0 \<and>
            console (main env fs0) =
              [''Compiling '' @ show_nat (length ?fl) @ '' files...'',
               ''Rendering '' @ show_nat (length out) @ '' contracts...'']" for out fs2
    by (simp add: main_def try_block_def Let_def)
  have c: "compile env ?fs1 ?fl = Inl e \<Longrightarrow>
           exit_status (main env fs0) = 1 \<and>
           console (main env fs0) =
             [''Compiling '' @ show_nat (length ?fl) @ '' files...'',
              ''An error occurred'', stack env e]" for e
    by (simp add: main_def try_block_def Let_def)
  have r: "compile env ?fs1 ?fl = Inr out \<Longrightarrow>
           render env out destFn headerFn ?fs1 = (Some e, fs2) \<Longrightarrow>
           exit_status (main env fs0) = 1 \<and>
           console (main env fs0) =
             [''Compiling '' @ show_nat (length ?fl) @ '' files...'',
              ''Rendering '' @ show_nat (length out) @ '' contracts...'',
              ''An error occurred'', stack env e]" for out e fs2
    by (simp add: main_def try_block_def Let_def)
  have t: "exit_status (main env fs0) = 0 \<or> exit_status (main env fs0) = 1"
    by (cases "try_block env fs0"; cases "fst (try_block env fs0)") (auto simp: main_def)
  show ?thesis
    unfolding Let_def using ok c r t by blast
qed

text \<open>
  C6. The script first removes everything at and below \<open>docs/ref\<close>. When \<open>compile\<close>
  throws, it exits with 1 and leaves the file system as the removal left it; when the
  table of contents or the page of some contract throws, it exits with 1 and leaves the
  file system exactly as the failing step left it, the pages written before included:
  nothing is retried and nothing is restored.
\<close>

theorem main_no_recovery:
  "(let fs1 = rm_rf ''./docs/ref'' fs0; fileList = ls_contracts fs1 in
     (\<forall>k. below [''docs'', ''ref''] k \<longrightarrow> \<not> is_file fs1 k \<and> k \<notin> set (dirs fs1))
   \<and> (\<forall>e. compile env fs1 fileList = Inl e \<longrightarrow>
        exit_status (main env fs0) = 1 \<and> final_fs (main env fs0) = fs1)
   \<and> (\<forall>output e fs2.
        compile env fs1 fileList = Inr output \<and>
        render_toc env output destFn headerFn fs1 = (Some e, fs2) \<longrightarrow>
        exit_status (main env fs0) = 1 \<and> final_fs (main env fs0) = fs2)
   \<and> (\<forall>cs1 c cs2 fsT fsA e fsB.
        compile env fs1 fileList = Inr (cs1 @ c # cs2) \<and>
        render_toc env (cs1 @ c # cs2) destFn headerFn fs1 = (None, fsT) \<and>
        render_contracts env destFn headerFn cs1 fsT = (None, fsA) \<and>
        render_contract env destFn headerFn c fsA = (Some e, fsB) \<longrightarrow>
        exit_status (main env fs0) = 1 \<and> final_fs (main env fs0) = fsB \<and>
        files fsB = files fsA))"
proof -
  have 1: "below [''docs'', ''ref''] k \<Longrightarrow>
           \<not> is_file (rm_rf ''./docs/ref'' fs0) k \<and> k \<notin> set (dirs (rm_rf ''./docs/ref'' fs0))" for k
    using rm_rf_removes [of "''./docs/ref''" k fs0] by (simp add: key_docs_ref)
  have 2: "compile env (rm_rf ''./docs/ref'' fs0) (ls_contracts (rm_rf ''./docs/ref'' fs0)) = Inl e \<Longrightarrow>
           exit_status (main env fs0) = 1 \<and> final_fs (main env fs0) = rm_rf ''./docs/ref'' fs0" for e
    by (simp add: main_def try_block_def Let_def)
  have 3: "compile env (rm_rf ''./docs/ref'' fs0) (ls_contracts (rm_rf ''./docs/ref'' fs0)) = Inr out \<Longrightarrow>
           render_toc env out destFn headerFn (rm_rf ''./docs/ref'' fs0) = (Some e, fs2) \<Longrightarrow>
           exit_status (main env fs0) = 1 \<and> final_fs (main env fs0) = fs2" for out e fs2
    by (simp add: main_def try_block_def render_def Let_def)
  have 4: "compile env (rm_rf ''./docs/ref'' fs0) (ls_contracts (rm_rf ''./docs/ref'' fs0)) = Inr (cs1 @ c # cs2) \<Longrightarrow>
           render_toc env (cs1 @ c # cs2) destFn headerFn (rm_rf ''./docs/ref'' fs0) = (None, fsT) \<Longrightarrow>
           render_contracts env destFn headerFn cs1 fsT = (None, fsA) \<Longrightarrow>
           render_contract env destFn headerFn c fsA = (Some e, fsB) \<Longrightarrow>
           exit_status (main env fs0) = 1 \<and> final_fs (main env fs0) = fsB \<and> files fsB = files fsA"
    for cs1 c cs2 fsT fsA e fsB
    using render_contracts_stops [of env destFn headerFn cs1 fsT fsA c e fsB cs2]
          render_contract_failure_keeps_files [of env destFn headerFn c fsA e fsB]
    by (simp add: main_def try_block_def render_def Let_def)
  show ?thesis
    unfolding Let_def using 1 2 3 4 by blast
qed


lemma example_compile:
  "compile example_env (rm_rf ''./docs/ref'' example_fs)
     (ls_contracts (rm_rf ''./docs/ref'' example_fs))
   = Inr [\<lparr>filePath = ''./contracts/a/X.sol'', contractName = Some ''C'', data = example_data\<rparr>]"
  by code_simp

lemma example_render:
  "render example_env
     [\<lparr>filePath = ''./contracts/a/X.sol'', contractName = Some ''C'', data = example_data\<rparr>]
     destFn headerFn (rm_rf ''./docs/ref'' example_fs)
   = (None,
      \<lparr>files = [([''contracts'', ''Top.sol''], ''contract Top {}''),
                ([''contracts'', ''a'', ''X.sol''], ''contract C {}''),
                ([''contracts'', ''a'', ''b'', ''Deep.sol''], ''contract Deep {}''),
                ([''docs'', ''ref'', ''README.md''], ''# Contents''),
                ([''docs'', ''ref'', ''a'', ''C.md''], ''# C'')],
       dirs = [[''contracts''], [''contracts'', ''a''], [''contracts'', ''a'', ''b''],
               [''docs''], [''docs'', ''ref''], [''docs'', ''ref'', ''a'']]\<rparr>)"
  by code_simp

lemma failing_solc_compile:
  "compile failing_solc_env (rm_rf ''./docs/ref'' example_fs)
     (ls_contracts (rm_rf ''./docs/ref'' example_fs))
   = Inl (Error ''solc'')"
  by code_simp

lemma failing_template_compile:
  "compile failing_template_env (rm_rf ''./docs/ref'' example_fs)
     (ls_contracts (rm_rf ''./docs/ref'' example_fs))
   = Inr ([] @ \<lparr>filePath = ''./contracts/a/X.sol'', contractName = Some ''C'', data = example_data\<rparr> # [])"
  by code_simp

lemma failing_template_toc:
  "render_toc failing_template_env
     ([] @ \<lparr>filePath = ''./contracts/a/X.sol'', contractName = Some ''C'', data = example_data\<rparr> # [])
     destFn headerFn (rm_rf ''./docs/ref'' example_fs)
   = (None,
      \<lparr>files = [([''contracts'', ''Top.sol''], ''contract Top {}''),
                ([''contracts'', ''a'', ''X.sol''], ''contract C {}''),
                ([''contracts'', ''a'', ''b'', ''Deep.sol''], ''contract Deep {}''),
                ([''docs'', ''ref'', ''README.md''], ''# Contents'')],
       dirs = [[''contracts''], [''contracts'', ''a''], [''contracts'', ''a'', ''b''],
               [''docs''], [''docs'', ''ref'']]\<rparr>)"
  by code_simp

lemma failing_template_page:
  "render_contract failing_template_env destFn headerFn
     \<lparr>filePath = ''./contracts/a/X.sol'', contractName = Some ''C'', data = example_data\<rparr>
     \<lparr>files = [([''contracts'', ''Top.sol''], ''contract Top {}''),
               ([''contracts'', ''a'', ''X.sol''], ''contract C {}''),
               ([''contracts'', ''a'', ''b'', ''Deep.sol''], ''contract Deep {}''),
               ([''docs'', ''ref'', ''README.md''], ''# Contents'')],
      dirs = [[''contracts''], [''contracts'', ''a''], [''contracts'', ''a'', ''b''],
              [''docs''], [''docs'', ''ref'']]\<rparr>
   = (Some (Error ''template''),
      \<lparr>files = [([''contracts'', ''Top.sol''], ''contract Top {}''),
                ([''contracts'', ''a'', ''X.sol''], ''contract C {}''),
                ([''contracts'', ''a'', ''b'', ''Deep.sol''], ''contract Deep {}''),
                ([''docs'', ''ref'', ''README.md''], ''# Contents'')],
       dirs = [[''contracts''], [''contracts'', ''a''], [''contracts'', ''a'', ''b''],
               [''docs''], [''docs'', ''ref'']]\<rparr>)"
  by code_simp

lemma failing_solc_stack: "stack failing_solc_env (Error ''solc'') = ''Error: solc''"
  by code_simp

lemma failing_template_render:
  "render failing_template_env
     [\<lparr>filePath = ''./contracts/a/X.sol'', contractName = Some ''C'', data = example_data\<rparr>]
     destFn headerFn (rm_rf ''./docs/ref'' example_fs)
   = (Some (Error ''template''),
      \<lparr>files = [([''contracts'', ''Top.sol''], ''contract Top {}''),
                ([''contracts'', ''a'', ''X.sol''], ''contract C {}''),
                ([''contracts'', ''a'', ''b'', ''Deep.sol''], ''contract Deep {}''),
                ([''docs'', ''ref'', ''README.md''], ''# Contents'')],
       dirs = [[''contracts''], [''contracts'', ''a''], [''contracts'', ''a'', ''b''],
               [''docs''], [''docs'', ''ref'']]\<rparr>)"
  by code_simp

lemma failing_template_stack: "stack failing_template_env (Error ''template'') = ''Error: template''"
  by code_simp

theorem main_exit_status_witness:
  "exit_status (main example_env example_fs) = 0
   \<and> console (main example_env example_fs) = [''Compiling 1 files...'', ''Rendering 1 contracts...'']
   \<and> exit_status (main failing_solc_env example_fs) = 1
   \<and> console (main failing_solc_env example_fs) =
       [''Compiling 1 files...'', ''An error occurred'', ''Error: solc'']
   \<and> exit_status (main failing_template_env example_fs) = 1
   \<and> console (main failing_template_env example_fs) =
       [''Compiling 1 files...'', ''Rendering 1 contracts...'', ''An error occurred'',
        ''Error: template'']"
proof -
  have n: "show_nat (Suc 0) = ''1''"
    by code_simp
  have l: "length (ls_contracts (rm_rf ''./docs/ref'' example_fs)) = Suc 0"
    by code_simp
  from main_exit_status [of example_fs example_env] example_compile example_render
  have "exit_status (main example_env example_fs) = 0
        \<and> console (main example_env example_fs) = [''Compiling 1 files...'', ''Rendering 1 contracts...'']"
    by (simp add: Let_def n l)
  moreover
  from main_exit_status [of example_fs failing_solc_env] failing_solc_compile
  have "exit_status (main failing_solc_env example_fs) = 1
        \<and> console (main failing_solc_env example_fs) =
            [''Compiling 1 files...'', ''An error occurred'', ''Error: solc'']"
    by (simp add: Let_def n l failing_solc_stack)
  moreover
  from main_exit_status [of example_fs failing_template_env] failing_template_compile
    failing_template_render
  have "exit_status (main failing_template_env example_fs) = 1
        \<and> console (main failing_template_env example_fs) =
            [''Compiling 1 files...'', ''Rendering 1 contracts...'', ''An error occurred'',
             ''Error: template'']"
    by (simp add: Let_def n l failing_template_stack)
  ultimately show ?thesis by simp
qed

theorem main_no_recovery_witness:
  "exit_status (main failing_template_env example_fs) = 1
   \<and> map fst (files (final_fs (main failing_template_env example_fs))) =
       [[''contracts'', ''Top.sol''], [''contracts'', ''a'', ''X.sol''],
        [''contracts'', ''a'', ''b'', ''Deep.sol''], [''docs'', ''ref'', ''README.md'']]
   \<and> final_fs (main failing_solc_env example_fs) = rm_rf ''./docs/ref'' example_fs
   \<and> \<not> is_file (rm_rf ''./docs/ref'' example_fs) [''docs'', ''ref'', ''old.md'']"
proof -
  have b: "below [''docs'', ''ref''] [''docs'', ''ref'', ''old.md'']"
    by (simp add: below_def)
  have r0: "render_contracts failing_template_env destFn headerFn [] fsT = (None, fsT)" for fsT
    by simp
  from main_no_recovery [of example_fs failing_template_env]
    failing_template_compile failing_template_toc r0 failing_template_page
  have "exit_status (main failing_template_env example_fs) = 1
        \<and> map fst (files (final_fs (main failing_template_env example_fs))) =
           [[''contracts'', ''Top.sol''], [''contracts'', ''a'', ''X.sol''],
            [''contracts'', ''a'', ''b'', ''Deep.sol''], [''docs'', ''ref'', ''README.md'']]"
    unfolding Let_def by fastforce
  moreover
  from main_no_recovery [of example_fs failing_solc_env] failing_solc_compile b
  have "final_fs (main failing_solc_env example_fs) = rm_rf ''./docs/ref'' example_fs
        \<and> \<not> is_file (rm_rf ''./docs/ref'' example_fs) [''docs'', ''ref'', ''old.md'']"
    unfolding Let_def by blast
  ultimately show ?thesis by simp
qed

text \<open>
  C5, evaluated on the example tree: of the three \<open>.sol\<close> files under \<open>contracts\<close> only
  the one exactly one directory down is listed, and after a run that exits with 0 the
  output directory holds the table of contents and that file's page, and no page for
  the file directly in \<open>contracts\<close> or the one two directories down.
\<close>

theorem ls_contracts_one_level_only:
  "map fst (files example_fs) =
     [[''contracts'', ''Top.sol''], [''contracts'', ''a'', ''X.sol''],
      [''contracts'', ''a'', ''b'', ''Deep.sol''], [''docs'', ''ref'', ''old.md'']]
   \<and> ls_contracts (rm_rf ''./docs/ref'' example_fs) = [''./contracts/a/X.sol'']
   \<and> exit_status (main example_env example_fs) = 0
   \<and> filter (below [''docs'', ''ref'']) (map fst (files (final_fs (main example_env example_fs)))) =
       [[''docs'', ''ref'', ''README.md''], [''docs'', ''ref'', ''a'', ''C.md'']]"
  by code_simp

section \<open>compile\<close>

lemma split_on_none: "c \<notin> set s \<Longrightarrow> split_on c s = [s]"
  by (induction s) auto

lemma split_on_first: "c \<notin> set a \<Longrightarrow> split_on c (a @ c # b) = a # split_on c b"
  by (induction a) auto

lemma split_key_wellformed:
  "CHR '':'' \<notin> set f \<Longrightarrow> CHR '':'' \<notin> set n \<Longrightarrow>
   split_key (f @ '':'' @ n) d = \<lparr>filePath = f, contractName = Some n, data = d\<rparr>"
  by (simp add: split_key_def split_on_first split_on_none)

text \<open>
  C9. Whatever \<open>compile\<close> returns comes from the compiler's output: every element is the
  split of one output key, its file is in the input list, every output contract whose
  file is in the list is returned and every other one (a contract of an imported file)
  is not; and for a key \<open>file:name\<close> with its one colon the element's file and contract
  name are the text before and after the colon.
\<close>

theorem compile_keeps_listed_files:
  assumes "compile env fs fileList = Inr result"
  shows "\<exists>input contracts.
           read_sources fs fileList [] = Inr input
         \<and> solc_compile env input (findImports fs) = Inr contracts
         \<and> (\<forall>c \<in> set result. filePath c \<in> set fileList
               \<and> (\<exists>(k, d) \<in> set contracts. c = split_key k d))
         \<and> (\<forall>(k, d) \<in> set contracts.
               (split_key k d \<in> set result) = (filePath (split_key k d) \<in> set fileList))
         \<and> (\<forall>f n d. (f @ '':'' @ n, d) \<in> set contracts \<and> CHR '':'' \<notin> set f \<and> CHR '':'' \<notin> set n \<longrightarrow>
               (\<lparr>filePath = f, contractName = Some n, data = d\<rparr> \<in> set result) = (f \<in> set fileList))"
proof -
  from assms obtain input contracts where
    i: "read_sources fs fileList [] = Inr input" and
    c: "solc_compile env input (findImports fs) = Inr contracts" and
    r: "result = filter (\<lambda>c. filePath c \<in> set fileList) (map (\<lambda>(k, d). split_key k d) contracts)"
    by (auto simp: compile_def split: sum.splits)
  have 1: "\<forall>c \<in> set result. filePath c \<in> set fileList \<and> (\<exists>(k, d) \<in> set contracts. c = split_key k d)"
    unfolding r by auto
  have 2: "\<forall>(k, d) \<in> set contracts.
             (split_key k d \<in> set result) = (filePath (split_key k d) \<in> set fileList)"
    unfolding r by force
  have 3: "(\<lparr>filePath = f, contractName = Some n, data = d\<rparr> \<in> set result) = (f \<in> set fileList)"
    if "(f @ '':'' @ n, d) \<in> set contracts" "CHR '':'' \<notin> set f" "CHR '':'' \<notin> set n" for f n d
  proof -
    have "split_key (f @ '':'' @ n) d = \<lparr>filePath = f, contractName = Some n, data = d\<rparr>"
      using that(2,3) split_key_wellformed [of f n d] by simp
    with 2 that(1) show ?thesis by fastforce
  qed
  from i c 1 2 3 show ?thesis by blast
qed

lemma example_compile_X:
  "compile example_env example_fs [''./contracts/a/X.sol''] =
     Inr [\<lparr>filePath = ''./contracts/a/X.sol'', contractName = Some ''C'', data = example_data\<rparr>]"
  by code_simp

lemma example_solc:
  "solc_compile example_env [(''./contracts/a/X.sol'', ''contract C {}'')] (findImports example_fs) =
     Inr [(''./contracts/a/X.sol:C'', example_data), (''dep/Lib.sol:Lib'', example_data)]"
  by (simp add: example_env_def)

lemma example_sources:
  "read_sources example_fs [''./contracts/a/X.sol''] [] = Inr [(''./contracts/a/X.sol'', ''contract C {}'')]"
  by code_simp

theorem compile_keeps_listed_files_witness:
  "compile example_env example_fs [''./contracts/a/X.sol''] =
     Inr [\<lparr>filePath = ''./contracts/a/X.sol'', contractName = Some ''C'', data = example_data\<rparr>]
   \<and> (''dep/Lib.sol:Lib'', example_data) \<in> set [(''./contracts/a/X.sol:C'', example_data), (''dep/Lib.sol:Lib'', example_data)]
   \<and> \<lparr>filePath = ''dep/Lib.sol'', contractName = Some ''Lib'', data = example_data\<rparr>
       \<notin> set [\<lparr>filePath = ''./contracts/a/X.sol'', contractName = Some ''C'', data = example_data\<rparr>]"
  using compile_keeps_listed_files [OF example_compile_X] example_compile_X
  by simp

section \<open>The components\<close>

lemma text_content_Empty: "concat (map text_content (map (\<lambda>m. Empty) ms)) = []"
  by (induction ms) auto

lemma DaoMembersContainer_render_empty:
  "DaoMembersContainer_render css props =
     Element ''div'' [(''className'', PStr (membersContainer css))]
       (map (\<lambda>m. Empty) (members props))"
  by (simp add: DaoMembersContainer_render_def Let_def)

lemma DaoMembersContainer_render_no_text:
  "text_content (DaoMembersContainer_render css props) = []"
  by (simp add: DaoMembersContainer_render_empty text_content_Empty)

lemma DaoMembersContainer_members_error:
  "members_of daoAddress = ns @ [Failed e] \<Longrightarrow> daoAddress \<noteq> [] \<Longrightarrow>
   DaoMembersContainer css members_of profs (Some daoAddress) =
     Inr (Element ''div'' [] [Text (message e)])"
  by (simp add: DaoMembersContainer_def Subscribe_def observed_def)

text \<open>
  C2, evaluated. An error of the DAO members observable is rendered as its message. An
  error of a member's state observable is not: the member's \<open>Subscribe\<close> element is
  dropped by the \<open>map\<close> callback, so the container renders an empty entry and no text,
  although the children function, had it been rendered, would show the message.
\<close>

theorem member_state_error_not_rendered:
  "DaoMembersContainer example_css (\<lambda>a. [Failed (Error ''Could not find dao'')]) no_profiles
       (Some ''0xdao'')
     = Inr (Element ''div'' [] [Text ''Could not find dao''])
   \<and> DaoMembersContainer example_css (\<lambda>a. [Next [failing_member]]) no_profiles (Some ''0xdao'')
     = Inr (Element ''div'' [(''className'', PStr ''membersContainer'')] [Empty])
   \<and> Subscribe (Member.state failing_member) (member_children example_css None no_profiles)
     = Inr (Element ''div'' [] [Text ''Could not find member''])"
  by (simp add: DaoMembersContainer_def DaoMembersContainer_render_def Subscribe_def observed_def
      member_children_def failing_member_def example_css_def)

text \<open>
  C3, evaluated. For a member list of one member whose state has arrived, the container
  renders one empty entry and no text at all; the children function on that state would
  show the address and the reputation.
\<close>

theorem member_entries_not_rendered:
  "DaoMembersContainer_render example_css
       \<lparr>dao = None, members = [example_member], profiles = no_profiles\<rparr>
     = Element ''div'' [(''className'', PStr ''membersContainer'')] [Empty]
   \<and> text_content (DaoMembersContainer_render example_css
       \<lparr>dao = None, members = [example_member], profiles = no_profiles\<rparr>) = []
   \<and> map_sum id text_content
       (Subscribe (Member.state example_member) (member_children example_css None no_profiles))
     = Inr ['''', ''0xm1'', ''Reputation: '', ''10'']"
  by code_simp

text \<open>
  On the first render of a row (and whenever the lock is another object than at the
  render before) both memo cells are computed at the render's own time: Release is shown
  exactly when the lock is not released and the time is at or after the releasable time,
  Extend exactly when locking has not ended and the time is at or before it.
\<close>

lemma LockRow_first_render_Release:
  assumes "\<forall>d \<in> set (durations props). \<not> has_button ''Release'' d"
  shows "has_button ''Release'' (fst (LockRow env now props first_render)) =
           (\<not> released (lockData props) \<and>
            now \<ge> lockingTime (lockData props) * 1000
                   + (period (lockData props) * batchTime (schemeParams props)) * 1000)"
  using assms
  by (simp add: LockRow_def Let_def useMemo_def first_render_def)

lemma LockRow_first_render_Extend:
  assumes "\<forall>d \<in> set (durations props). \<not> has_button ''Extend Lock'' d"
  shows "has_button ''Extend Lock'' (fst (LockRow env now props first_render)) =
           (\<not> isLockingEnded props \<and>
            now \<le> lockingTime (lockData props) * 1000
                   + (period (lockData props) * batchTime (schemeParams props)) * 1000)"
  using assms
  by (simp add: LockRow_def Let_def useMemo_def first_render_def)

lemma hooks_after_first:
  "snd (LockRow example_LockRow_env 50000 example_lock_props first_render) =
     \<lparr>isReleasing = False, isExtending = False, lockDuration = 1,
      releasable_cell = Some (1, 120000), release_cell = Some (1, False)\<rparr>"
  by (simp add: LockRow_def useMemo_def first_render_def example_lock_props_def Let_def)

text \<open>
  C10, evaluated. The row of the example lock (releasable at second 120, not released)
  is rendered at second 50, and again at second 200 with the same lock object: the
  second render shows neither Release nor Extend, because \<open>release\<close> is the value
  memoised at second 50, while a row first rendered at second 200 shows Release.
\<close>

theorem LockRow_release_is_stale:
  "has_button ''Release''
       (fst (LockRow example_LockRow_env 50000 example_lock_props first_render)) = False
   \<and> has_button ''Extend Lock''
       (fst (LockRow example_LockRow_env 50000 example_lock_props first_render)) = True
   \<and> has_button ''Release''
       (fst (LockRow example_LockRow_env 200000 example_lock_props
              (snd (LockRow example_LockRow_env 50000 example_lock_props first_render)))) = False
   \<and> has_button ''Extend Lock''
       (fst (LockRow example_LockRow_env 200000 example_lock_props
              (snd (LockRow example_LockRow_env 50000 example_lock_props first_render)))) = False
   \<and> has_button ''Release''
       (fst (LockRow example_LockRow_env 200000 example_lock_props first_render)) = True"
  unfolding hooks_after_first
  by (simp add: LockRow_def useMemo_def first_render_def example_lock_props_def Let_def)

end
